theory Spec2Isabelle
  imports
    Main
    "HOL-Library.Sublist"
    "HOL-Library.Multiset"
    "HOL-Library.Char_ord"
    "HOL-Library.List_Lexorder"
begin

section \<open>Values and records\<close>

text \<open>
  The repository holds three copies of one catalogue browser. The first script of
  \<^verbatim>\<open>Logic.js\<close> filters an inline constant \<^verbatim>\<open>database\<close> whose records carry the
  fields \<^verbatim>\<open>id, title, description, category, status, tech\<close>; its definitions carry
  the suffix \<open>_inline\<close> here. The second script of \<^verbatim>\<open>Logic.js\<close> and the unnamed
  file fetch the records from a JSON document and filter on the fields
  \<^verbatim>\<open>Areas of support, Format, Price\<close>; their function bodies agree statement by
  statement, so one set of definitions (without suffix) embeds both.
\<close>

text \<open>
  Record identifiers and the argument of \<^verbatim>\<open>openModal\<close> are numbers or strings
  (\<^verbatim>\<open>@param {string|number} itemId\<close>). Numbers are modelled as integers: identifiers
  are whole numbers far below \<open>2 ^ 53\<close>, which the host language holds and prints exactly.
\<close>

datatype js_val = JNum int | JStr string

text \<open>
  A fetched record. An array field that the JSON object lacks reads as \<^verbatim>\<open>undefined\<close>:
  \<open>None\<close>. The same holds for the two optional text fields.
\<close>

record item =
  Index :: js_val
  Name :: string
  Summary :: string
  Areas_of_support :: "string list option"
  Format :: "string list option"
  Price :: "string list option"
  Link :: "string option"
  Further_info :: "string option"

text \<open>
  A record of the inline constant. Each of the eight literals writes out every field, so
  \<^verbatim>\<open>item.tech\<close> is an array wherever that script reads it.
\<close>

record item_inline =
  item_id :: int
  title :: string
  description :: string
  category :: string
  status :: string
  tech :: "string list"

text \<open>
  What \<^verbatim>\<open>new FormData(filterForm).getAll(name)\<close> yields for the three checkbox
  groups: the values of the checked boxes, in document order.
\<close>

record selection =
  selectedAreasOfSupport :: "string list"
  selectedFormats :: "string list"
  selectedPrices :: "string list"

record selection_inline =
  selectedCategories :: "string list"
  selectedStatuses :: "string list"
  selectedTech :: "string list"

section \<open>Array primitives of the host language\<close>

text \<open>\<^verbatim>\<open>x || []\<close> on an array-valued field: an array is truthy even when empty.\<close>

definition or_empty :: "'a list option \<Rightarrow> 'a list" where
  "or_empty x = (case x of None \<Rightarrow> [] | Some xs \<Rightarrow> xs)"

text \<open>\<^verbatim>\<open>xs.includes(v)\<close> and \<^verbatim>\<open>xs.every(p)\<close> on arrays of strings.\<close>

definition array_includes :: "'a list \<Rightarrow> 'a \<Rightarrow> bool" where
  "array_includes xs v = (v \<in> set xs)"

definition array_every :: "'a list \<Rightarrow> ('a \<Rightarrow> bool) \<Rightarrow> bool" where
  "array_every xs p = list_all p xs"

section \<open>The filter predicate\<close>

text \<open>
  The arrow function handed to \<^verbatim>\<open>database.filter\<close> in \<^verbatim>\<open>filterData\<close>
  (second script of \<^verbatim>\<open>Logic.js\<close>, lines 329-343; unnamed file, lines 151-168).
\<close>

definition matches :: "selection \<Rightarrow> item \<Rightarrow> bool" where
  "matches sel item =
     (let areasOfSupportMatch =
            (length (selectedAreasOfSupport sel) = 0 \<or>
             array_every (selectedAreasOfSupport sel)
               (\<lambda>area. array_includes (or_empty (Areas_of_support item)) area));
          formatMatch =
            (length (selectedFormats sel) = 0 \<or>
             array_every (selectedFormats sel)
               (\<lambda>format. array_includes (or_empty (Format item)) format));
          priceMatch =
            (length (selectedPrices sel) = 0 \<or>
             array_every (selectedPrices sel)
               (\<lambda>price. array_includes (or_empty (Price item)) price))
      in areasOfSupportMatch \<and> formatMatch \<and> priceMatch)"

text \<open>The same arrow function in the first script of \<^verbatim>\<open>Logic.js\<close>, lines 114-119.\<close>

definition matches_inline :: "selection_inline \<Rightarrow> item_inline \<Rightarrow> bool" where
  "matches_inline sel item =
     (let categoryMatch =
            (length (selectedCategories sel) = 0 \<or>
             array_includes (selectedCategories sel) (category item));
          statusMatch =
            (length (selectedStatuses sel) = 0 \<or>
             array_includes (selectedStatuses sel) (status item));
          techMatch =
            (length (selectedTech sel) = 0 \<or>
             array_every (selectedTech sel) (\<lambda>t. array_includes (tech item) t))
      in categoryMatch \<and> statusMatch \<and> techMatch)"

section \<open>Numbers and strings\<close>

text \<open>
  A template literal prints a non-negative integer such as \<^verbatim>\<open>items.length\<close> in
  decimal, without leading zeros.
\<close>

definition digit_char :: "nat \<Rightarrow> char" where
  "digit_char d = ''0123456789'' ! d"

function show_nat :: "nat \<Rightarrow> string" where
  "show_nat n = (if n < 10 then [digit_char n] else show_nat (n div 10) @ [digit_char (n mod 10)])"
  by pat_completeness auto
termination
  by (relation "measure (\<lambda>n. n)") auto

declare show_nat.simps [simp del]

text \<open>\<^verbatim>\<open>${item.Index}\<close>: a string prints as itself, an integer in decimal with its sign.\<close>

fun to_string :: "js_val \<Rightarrow> string" where
  "to_string (JStr s) = s"
| "to_string (JNum n) = (if n < 0 then CHR ''-'' # show_nat (nat (- n)) else show_nat (nat n))"










text \<open>
  \<^verbatim>\<open>[...new Set(xs)]\<close>: the elements of \<open>xs\<close> in the order of their first
  occurrence. \<^verbatim>\<open>xs.flatMap(f)\<close> concatenates the arrays \<open>f\<close> returns, and
  \<^verbatim>\<open>xs.sort()\<close> on strings orders them by their code units, lexicographically.
\<close>

fun Set_add_all :: "'a list \<Rightarrow> 'a list \<Rightarrow> 'a list" where
  "Set_add_all seen [] = seen"
| "Set_add_all seen (x # xs) = Set_add_all (if x \<in> set seen then seen else seen @ [x]) xs"

definition spread_Set :: "'a list \<Rightarrow> 'a list" where
  "spread_Set xs = Set_add_all [] xs"

definition flatMap :: "'a list \<Rightarrow> ('a \<Rightarrow> 'b list) \<Rightarrow> 'b list" where
  "flatMap xs f = concat (map f xs)"

definition array_sort :: "string list \<Rightarrow> string list" where
  "array_sort xs = sort xs"

section \<open>The page\<close>

text \<open>
  Markup is kept as data: each template literal is a constructor that carries the values
  interpolated into it, and \<^verbatim>\<open>innerHTML\<close> of a container is the list of the pieces
  appended to it. The \<^verbatim>\<open>id\<close> attribute that the fetching scripts add to a checkbox
  label is a function of the same name and value and is not represented.
\<close>

datatype card = Card (data_id: string) (card_title: string) (card_text: string) (card_badges: "string list")

datatype checkbox = Checkbox (box_name: string) (box_value: string)

datatype block =
    Paragraph string
  | Badges string "string list"
  | LinkBlock string
  | FurtherInformation string

datatype callback = ShowModalPanel

text \<open>
  The closure variable \<^verbatim>\<open>database\<close> and the elements the scripts hold:
  a \<^verbatim>\<open>hidden\<close> class is a boolean, the filter containers are found by element id.
\<close>

record 'i page =
  database :: "'i list"
  resultsGrid :: "card list"
  resultsGrid_hidden :: bool
  noResultsMessage_hidden :: bool
  noResultsMessage_h3 :: string
  noResultsMessage_p :: string
  resultsCount :: string
  loadingIndicator_hidden :: bool
  filterContainer :: "string \<Rightarrow> checkbox list"
  modalTitle :: string
  modalContent :: "block list"
  infoModalContainer_hidden :: bool
  infoModal_hidden :: bool
  body_overflow :: string
  timeouts :: "(nat \<times> callback) list"

subsection \<open>Rendering\<close>

definition renderCard :: "item \<Rightarrow> card" where
  "renderCard item =
     (let formatBadges = (case Format item of Some fs \<Rightarrow> fs | None \<Rightarrow> [])
      in Card (to_string (Index item)) (Name item) (Summary item) formatBadges)"

definition renderCard_inline :: "item_inline \<Rightarrow> card" where
  "renderCard_inline item =
     (let techBadges = tech item
      in Card (to_string (JNum (item_id item))) (title item) (description item) techBadges)"

text \<open>
  \<^verbatim>\<open>populateResults(items)\<close>; the two copies differ in \<^verbatim>\<open>renderCard\<close> only, which
  is a parameter here. The \<^verbatim>\<open>forEach\<close> loop appends one card per item.
\<close>

definition populateResults_with :: "('i \<Rightarrow> card) \<Rightarrow> 'i list \<Rightarrow> 'i page \<Rightarrow> 'i page" where
  "populateResults_with render items st =
     (let st1 = st\<lparr>resultsGrid := []\<rparr>;
          st2 = (if length items > 0
                 then foldl (\<lambda>s item. s\<lparr>resultsGrid := resultsGrid s @ [render item]\<rparr>)
                        (st1\<lparr>resultsGrid_hidden := False, noResultsMessage_hidden := True\<rparr>) items
                 else st1\<lparr>resultsGrid_hidden := True, noResultsMessage_hidden := False\<rparr>)
      in st2\<lparr>resultsCount :=
               ''Showing '' @ show_nat (length items) @ '' of '' @
               show_nat (length (database st2)) @ '' results''\<rparr>)"

definition populateResults :: "item list \<Rightarrow> item page \<Rightarrow> item page" where
  "populateResults = populateResults_with renderCard"

definition populateResults_inline :: "item_inline list \<Rightarrow> item_inline page \<Rightarrow> item_inline page" where
  "populateResults_inline = populateResults_with renderCard_inline"

subsection \<open>Filter vocabularies\<close>

definition createCheckbox :: "string \<Rightarrow> string \<Rightarrow> checkbox" where
  "createCheckbox name val = Checkbox name val"

text \<open>\<^verbatim>\<open>vals.forEach(val => container.innerHTML += createCheckbox(name, val))\<close>\<close>

definition append_checkboxes :: "string \<Rightarrow> string \<Rightarrow> string list \<Rightarrow> 'i page \<Rightarrow> 'i page" where
  "append_checkboxes container name vals st =
     foldl (\<lambda>s val. s\<lparr>filterContainer :=
                        (filterContainer s)(container := filterContainer s container @ [createCheckbox name val])\<rparr>)
       st vals"

text \<open>\<^verbatim>\<open>populateFilters()\<close> of the fetching scripts: the containers are emptied first.\<close>

definition populateFilters :: "item page \<Rightarrow> item page" where
  "populateFilters st =
     (let areasOfSupport = spread_Set (flatMap (database st) (\<lambda>item. or_empty (Areas_of_support item)));
          formats = spread_Set (flatMap (database st) (\<lambda>item. or_empty (Format item)));
          prices = spread_Set (flatMap (database st) (\<lambda>item. or_empty (Price item)));
          st1 = st\<lparr>filterContainer :=
                    (filterContainer st)
                      (''areas-of-support-filters'' := [], ''format-filters'' := [], ''price-filters'' := [])\<rparr>;
          st2 = append_checkboxes ''areas-of-support-filters'' ''areas-of-support'' (array_sort areasOfSupport) st1;
          st3 = append_checkboxes ''format-filters'' ''format'' (array_sort formats) st2
      in append_checkboxes ''price-filters'' ''price'' (array_sort prices) st3)"

text \<open>\<^verbatim>\<open>populateFilters()\<close> of the inline script: nothing is emptied.\<close>

definition populateFilters_inline :: "item_inline page \<Rightarrow> item_inline page" where
  "populateFilters_inline st =
     (let categories = spread_Set (map category (database st));
          statuses = spread_Set (map status (database st));
          allTech = spread_Set (flatMap (database st) (\<lambda>item. tech item));
          st1 = append_checkboxes ''category-filters'' ''category'' (array_sort categories) st;
          st2 = append_checkboxes ''status-filters'' ''status'' (array_sort statuses) st1
      in append_checkboxes ''tech-filters'' ''tech'' (array_sort allTech) st2)"

subsection \<open>Filtering\<close>

text \<open>
  \<^verbatim>\<open>const filteredItems = database.filter(item => ...)\<close>, then the call of
  \<^verbatim>\<open>populateResults\<close>.
\<close>

definition filteredItems :: "selection \<Rightarrow> item list \<Rightarrow> item list" where
  "filteredItems sel db = filter (matches sel) db"

definition filteredItems_inline :: "selection_inline \<Rightarrow> item_inline list \<Rightarrow> item_inline list" where
  "filteredItems_inline sel db = filter (matches_inline sel) db"

definition filterData :: "selection \<Rightarrow> item page \<Rightarrow> item page" where
  "filterData sel st = populateResults (filteredItems sel (database st)) st"

definition filterData_inline :: "selection_inline \<Rightarrow> item_inline page \<Rightarrow> item_inline page" where
  "filterData_inline sel st = populateResults_inline (filteredItems_inline sel (database st)) st"

subsection \<open>The detail view\<close>






subsection \<open>Loading\<close>

text \<open>
  A record as \<^verbatim>\<open>response.json()\<close> delivers it. The parser checks no shapes: where the
  data model has a string tag, the document may carry a number. The type \<open>item\<close> above
  is the part of this type in which every tag is a string.
\<close>

record json_item =
  Index_json :: js_val
  Name_json :: string
  Summary_json :: string
  Areas_of_support_json :: "js_val list option"
  Format_json :: "js_val list option"
  Price_json :: "js_val list option"
  Link_json :: "string option"
  Further_info_json :: "string option"

fun is_string :: "js_val \<Rightarrow> bool" where
  "is_string (JStr s) = True"
| "is_string (JNum n) = False"

definition well_shaped :: "json_item \<Rightarrow> bool" where
  "well_shaped r =
     (list_all is_string (or_empty (Areas_of_support_json r)) \<and>
      list_all is_string (or_empty (Format_json r)) \<and>
      list_all is_string (or_empty (Price_json r)))"

definition item_of :: "json_item \<Rightarrow> item" where
  "item_of r =
     \<lparr>Index = Index_json r, Name = Name_json r, Summary = Summary_json r,
      Areas_of_support = map_option (map to_string) (Areas_of_support_json r),
      Format = map_option (map to_string) (Format_json r),
      Price = map_option (map to_string) (Price_json r),
      Link = Link_json r, Further_info = Further_info_json r\<rparr>"

text \<open>
  \<^verbatim>\<open>createCheckbox(name, value)\<close> starts with \<^verbatim>\<open>value.replace(...)\<close>, which a
  number does not have: the call throws a \<^verbatim>\<open>TypeError\<close>, here \<open>None\<close>.
\<close>

fun createCheckbox_json :: "string \<Rightarrow> js_val \<Rightarrow> checkbox option" where
  "createCheckbox_json name (JStr s) = Some (createCheckbox name s)"
| "createCheckbox_json name (JNum n) = None"

text \<open>
  How a block of statements ends: normally, or by an exception that leaves the page as
  the statements before the throw made it.
\<close>

datatype 's completion = Normal 's | Throws 's

text \<open>
  \<^verbatim>\<open>vals.forEach(val => container.innerHTML += createCheckbox(name, val))\<close> on values of
  either type: the checkboxes before the first number are appended, then the loop throws.
\<close>

fun append_checkboxes_json :: "string \<Rightarrow> string \<Rightarrow> js_val list \<Rightarrow> 'i page \<Rightarrow> 'i page completion" where
  "append_checkboxes_json container name [] st = Normal st"
| "append_checkboxes_json container name (val # vals) st =
     (case createCheckbox_json name val of
        None \<Rightarrow> Throws st
      | Some box \<Rightarrow>
          append_checkboxes_json container name vals
            (st\<lparr>filterContainer :=
                  (filterContainer st)(container := filterContainer st container @ [box])\<rparr>))"

text \<open>\<^verbatim>\<open>xs.sort()\<close> on values of either type compares what they print as.\<close>

definition array_sort_json :: "js_val list \<Rightarrow> js_val list" where
  "array_sort_json xs = sort_key to_string xs"

definition populateFilters_json :: "json_item page \<Rightarrow> json_item page completion" where
  "populateFilters_json st =
     (let areasOfSupport = spread_Set (flatMap (database st) (\<lambda>item. or_empty (Areas_of_support_json item)));
          formats = spread_Set (flatMap (database st) (\<lambda>item. or_empty (Format_json item)));
          prices = spread_Set (flatMap (database st) (\<lambda>item. or_empty (Price_json item)));
          st1 = st\<lparr>filterContainer :=
                    (filterContainer st)
                      (''areas-of-support-filters'' := [], ''format-filters'' := [], ''price-filters'' := [])\<rparr>
      in case append_checkboxes_json ''areas-of-support-filters'' ''areas-of-support''
                (array_sort_json areasOfSupport) st1 of
           Throws st2 \<Rightarrow> Throws st2
         | Normal st2 \<Rightarrow>
             (case append_checkboxes_json ''format-filters'' ''format'' (array_sort_json formats) st2 of
                Throws st3 \<Rightarrow> Throws st3
              | Normal st3 \<Rightarrow>
                  append_checkboxes_json ''price-filters'' ''price'' (array_sort_json prices) st3))"

text \<open>
  \<^verbatim>\<open>renderCard\<close> prints each \<^verbatim>\<open>Format\<close> value into a badge; no value of this type
  makes it throw.
\<close>

definition renderCard_json :: "json_item \<Rightarrow> card" where
  "renderCard_json item =
     (let formatBadges = (case Format_json item of Some fs \<Rightarrow> map to_string fs | None \<Rightarrow> [])
      in Card (to_string (Index_json item)) (Name_json item) (Summary_json item) formatBadges)"

definition populateResults_json :: "json_item list \<Rightarrow> json_item page \<Rightarrow> json_item page" where
  "populateResults_json = populateResults_with renderCard_json"

text \<open>
  What the two awaited calls of \<^verbatim>\<open>fetchDatabase\<close> can come back with:
  \<^verbatim>\<open>fetch\<close> rejects (\<open>None\<close>) or resolves to a response with its \<^verbatim>\<open>ok\<close> flag and
  status; \<^verbatim>\<open>response.json()\<close> rejects on a body that does not parse (\<open>None\<close>) or
  resolves to the records.
\<close>

record response =
  ok :: bool
  http_status :: nat
  json :: "json_item list option"

text \<open>The \<^verbatim>\<open>catch\<close> block and the \<^verbatim>\<open>finally\<close> block.\<close>

definition load_failed :: "'i page \<Rightarrow> 'i page" where
  "load_failed st =
     st\<lparr>resultsCount := ''Failed to load data.'',
        noResultsMessage_hidden := False,
        noResultsMessage_h3 := ''Error loading data'',
        noResultsMessage_p := ''Please try again later.''\<rparr>"

definition load_finally :: "'i page \<Rightarrow> 'i page" where
  "load_finally st = st\<lparr>loadingIndicator_hidden := True\<rparr>"

text \<open>
  \<^verbatim>\<open>fetchDatabase()\<close>. The assignment to \<^verbatim>\<open>database\<close> and the two calls that follow
  it stand inside the \<^verbatim>\<open>try\<close>: an exception in \<^verbatim>\<open>populateFilters\<close> reaches the
  \<^verbatim>\<open>catch\<close> block with \<^verbatim>\<open>database\<close> already assigned.
\<close>

definition fetchDatabase :: "response option \<Rightarrow> json_item page \<Rightarrow> json_item page" where
  "fetchDatabase fetched st =
     (let st1 = st\<lparr>loadingIndicator_hidden := False, resultsCount := ''Loading data...''\<rparr>
      in load_finally
           (case fetched of
              None \<Rightarrow> load_failed st1
            | Some resp \<Rightarrow>
                if \<not> ok resp then load_failed st1
                else (case json resp of
                        None \<Rightarrow> load_failed st1
                      | Some data \<Rightarrow>
                          (case populateFilters_json (st1\<lparr>database := data\<rparr>) of
                             Throws st2 \<Rightarrow> load_failed st2
                           | Normal st2 \<Rightarrow> populateResults_json data st2))))"

subsection \<open>The inline data\<close>

definition database_inline :: "item_inline list" where
  "database_inline =
    [\<lparr>item_id = 1, title = ''E-commerce Platform'',
      description = ''A full-featured e-commerce platform with a custom CMS, product management, and a secure checkout process. Built for scalability and high traffic.'',
      category = ''Web Development'', status = ''Completed'',
      tech = [''React'', ''Node.js'', ''PostgreSQL'']\<rparr>,
     \<lparr>item_id = 2, title = ''Mobile Banking App'',
      description = ''A native mobile application for iOS and Android that allows users to manage their bank accounts, transfer funds, and pay bills securely.'',
      category = ''Mobile App'', status = ''In Progress'',
      tech = [''Swift'', ''Kotlin'', ''Firebase'']\<rparr>,
     \<lparr>item_id = 3, title = ''Data Analytics Dashboard'',
      description = ''An interactive dashboard for visualizing complex sales and marketing data, with real-time updates and customizable reports.'',
      category = ''Data Science'', status = ''Completed'',
      tech = [''Python'', ''D3.js'', ''React'']\<rparr>,
     \<lparr>item_id = 4, title = ''Company Website Redesign'',
      description = ''A complete overhaul of the corporate website to improve user experience, accessibility, and search engine optimization.'',
      category = ''Web Development'', status = ''Planning'',
      tech = [''HTML'', ''CSS'', ''JavaScript'']\<rparr>,
     \<lparr>item_id = 5, title = ''Inventory Management System'',
      description = ''A web-based system for tracking inventory across multiple warehouses, with barcode scanning and automated reordering features.'',
      category = ''Web Development'', status = ''In Progress'',
      tech = [''React'', ''Firebase'']\<rparr>,
     \<lparr>item_id = 6, title = ''Fitness Tracker App'',
      description = ''A cross-platform mobile app that tracks user workouts, sets goals, and provides social sharing features.'',
      category = ''Mobile App'', status = ''Completed'',
      tech = [''React Native'', ''GraphQL'']\<rparr>,
     \<lparr>item_id = 7, title = ''AI Chatbot Integration'',
      description = ''An AI-powered chatbot integrated into the customer support portal to answer common questions and escalate complex issues to human agents.'',
      category = ''AI/ML'', status = ''In Progress'',
      tech = [''Python'', ''TensorFlow'', ''Dialogflow'']\<rparr>,
     \<lparr>item_id = 8, title = ''Marketing Campaign Analytics'',
      description = ''A data pipeline and visualization tool to track the performance of marketing campaigns across various channels.'',
      category = ''Data Science'', status = ''Planning'',
      tech = [''Python'', ''Tableau'', ''SQL'']\<rparr>]"

section \<open>Observations and sample data\<close>

text \<open>The values of the checkboxes a filter container holds, in document order.\<close>

definition offered :: "string \<Rightarrow> 'i page \<Rightarrow> string list" where
  "offered container st = map box_value (filterContainer st container)"

text \<open>
  A page on which no handler has run yet, around a given \<^verbatim>\<open>database\<close>: nothing is
  rendered, the overlays are hidden, and two placeholder strings stand for the
  empty-state texts of the document.
\<close>

definition blank_page :: "'i list \<Rightarrow> 'i page" where
  "blank_page db =
     \<lparr>database = db, resultsGrid = [], resultsGrid_hidden = False,
      noResultsMessage_hidden = True, noResultsMessage_h3 = ''empty-state heading'',
      noResultsMessage_p = ''empty-state text'', resultsCount = [],
      loadingIndicator_hidden = True, filterContainer = (\<lambda>_. []), modalTitle = [],
      modalContent = [], infoModalContainer_hidden = True, infoModal_hidden = True,
      body_overflow = [], timeouts = []\<rparr>"

text \<open>
  The two-record data set of the specification's scenarios, with \<^verbatim>\<open>Format\<close> as the tag
  group, and a third record that repeats an identifier and has no array field at all.
\<close>

definition record_1 :: item where
  "record_1 = \<lparr>Index = JNum 1, Name = ''First'', Summary = ''Has both tags'',
               Areas_of_support = Some [''Reading''], Format = Some [''A'', ''B''],
               Price = Some [''Free''], Link = None, Further_info = None\<rparr>"

definition record_2 :: item where
  "record_2 = \<lparr>Index = JNum 2, Name = ''Second'', Summary = ''Has one tag'',
               Areas_of_support = Some [''Writing'', ''Reading''], Format = Some [''B''],
               Price = None, Link = Some ''https://example.org'', Further_info = None\<rparr>"

definition record_2_again :: item where
  "record_2_again = \<lparr>Index = JStr ''2'', Name = ''Second again'', Summary = ''Same identifier'',
               Areas_of_support = None, Format = None,
               Price = None, Link = None, Further_info = None\<rparr>"

text \<open>
  The scenario records as a parsed document carries them, and a record whose
  \<^verbatim>\<open>Price\<close> array holds the number 5.
\<close>

definition record_1_json :: json_item where
  "record_1_json = \<lparr>Index_json = JNum 1, Name_json = ''First'', Summary_json = ''Has both tags'',
               Areas_of_support_json = Some [JStr ''Reading''], Format_json = Some [JStr ''A'', JStr ''B''],
               Price_json = Some [JStr ''Free''], Link_json = None, Further_info_json = None\<rparr>"

definition record_2_json :: json_item where
  "record_2_json = \<lparr>Index_json = JNum 2, Name_json = ''Second'', Summary_json = ''Has one tag'',
               Areas_of_support_json = Some [JStr ''Writing'', JStr ''Reading''], Format_json = Some [JStr ''B''],
               Price_json = None, Link_json = Some ''https://example.org'', Further_info_json = None\<rparr>"

definition record_numeric_price :: json_item where
  "record_numeric_price = \<lparr>Index_json = JNum 1, Name_json = ''First'', Summary_json = ''Numeric price'',
               Areas_of_support_json = Some [JStr ''Reading''], Format_json = Some [JStr ''A''],
               Price_json = Some [JNum 5], Link_json = None, Further_info_json = None\<rparr>"

section \<open>Properties of the filter predicate\<close>

lemma every_includes_subset: "array_every sel (\<lambda>v. array_includes xs v) = (set sel \<subseteq> set xs)"
  by (auto simp: array_every_def array_includes_def list_all_iff)

lemma empty_or_subset: "(length sel = 0 \<or> set sel \<subseteq> A) = (set sel \<subseteq> A)"
  by auto


lemma matches_subset:
  "matches sel item =
     (set (selectedAreasOfSupport sel) \<subseteq> set (or_empty (Areas_of_support item)) \<and>
      set (selectedFormats sel) \<subseteq> set (or_empty (Format item)) \<and>
      set (selectedPrices sel) \<subseteq> set (or_empty (Price item)))"
  unfolding matches_def Let_def every_includes_subset empty_or_subset ..

lemma matches_inline_char:
  "matches_inline sel item =
     ((selectedCategories sel = [] \<or> category item \<in> set (selectedCategories sel)) \<and>
      (selectedStatuses sel = [] \<or> status item \<in> set (selectedStatuses sel)) \<and>
      set (selectedTech sel) \<subseteq> set (tech item))"
  unfolding matches_inline_def Let_def every_includes_subset empty_or_subset
  by (simp add: array_includes_def)

text \<open>
  Claim C1, as amended. In the two fetching scripts a record matches a selection exactly
  when, for each of the three groups, its array field (empty when the field is absent)
  contains every selected value of the group; an empty selection constrains nothing and
  the groups are joined by conjunction. In the inline script the \<^verbatim>\<open>tech\<close> group behaves
  the same way, while the \<^verbatim>\<open>category\<close> and \<^verbatim>\<open>status\<close> groups, whose fields are single
  strings, are satisfied exactly when their selection is empty or contains the record's
  value.
\<close>

theorem matches_characterisation:
  "(matches sel item \<longleftrightarrow>
      set (selectedAreasOfSupport sel) \<subseteq> set (or_empty (Areas_of_support item)) \<and>
      set (selectedFormats sel) \<subseteq> set (or_empty (Format item)) \<and>
      set (selectedPrices sel) \<subseteq> set (or_empty (Price item))) \<and>
   (matches_inline sel' item' \<longleftrightarrow>
      (selectedCategories sel' = [] \<or> category item' \<in> set (selectedCategories sel')) \<and>
      (selectedStatuses sel' = [] \<or> status item' \<in> set (selectedStatuses sel')) \<and>
      set (selectedTech sel') \<subseteq> set (tech item'))"
  using matches_subset [of sel item] matches_inline_char [of sel' item'] by blast

text \<open>
  The characterisation at the scenario data: with \<^verbatim>\<open>A\<close> and \<^verbatim>\<open>B\<close> selected the first
  record matches and the second, which lacks \<^verbatim>\<open>A\<close>, does not; in the inline data the
  first record matches the selection of \<^verbatim>\<open>React\<close>.
\<close>

theorem matches_characterisation_witness:
  "matches \<lparr>selectedAreasOfSupport = [], selectedFormats = [''A'', ''B''], selectedPrices = []\<rparr> record_1 \<and>
   \<not> matches \<lparr>selectedAreasOfSupport = [], selectedFormats = [''A'', ''B''], selectedPrices = []\<rparr> record_2 \<and>
   matches_inline \<lparr>selectedCategories = [], selectedStatuses = [''Completed''], selectedTech = [''React'']\<rparr>
     (database_inline ! 0)"
  using matches_characterisation
          [of "\<lparr>selectedAreasOfSupport = [], selectedFormats = [''A'', ''B''], selectedPrices = []\<rparr>" record_1
              "\<lparr>selectedCategories = [], selectedStatuses = [''Completed''], selectedTech = [''React'']\<rparr>"
              "database_inline ! 0"]
        matches_characterisation
          [of "\<lparr>selectedAreasOfSupport = [], selectedFormats = [''A'', ''B''], selectedPrices = []\<rparr>" record_2]
  by (simp add: or_empty_def record_1_def record_2_def database_inline_def)

text \<open>
  Claim C1 as stated fails on the inline script, first script of \<^verbatim>\<open>Logic.js\<close>, line 115.
  With the categories \<^verbatim>\<open>Mobile App\<close> and \<^verbatim>\<open>Web Development\<close> checked, the first
  record of the inline data matches although its category field does not contain every
  selected value; and with only \<^verbatim>\<open>Mobile App\<close> checked it does not match although its
  one array field, \<^verbatim>\<open>tech\<close>, contains every selected \<^verbatim>\<open>tech\<close> value.
\<close>

theorem matches_inline_scalar_groups_counterexample:
  "matches_inline
     \<lparr>selectedCategories = [''Mobile App'', ''Web Development''], selectedStatuses = [], selectedTech = []\<rparr>
     (database_inline ! 0) \<and>
   \<not> set [''Mobile App'', ''Web Development''] \<subseteq> set [category (database_inline ! 0)] \<and>
   \<not> matches_inline
     \<lparr>selectedCategories = [''Mobile App''], selectedStatuses = [], selectedTech = []\<rparr>
     (database_inline ! 0) \<and>
   set [] \<subseteq> set (tech (database_inline ! 0))"
  by (simp add: matches_inline_def array_includes_def array_every_def database_inline_def)

text \<open>
  Claim C2, as amended. In the two fetching scripts the predicate is antitone in the
  selection: when every group of \<open>sel'\<close> holds at least the values of \<open>sel\<close> (one more
  checked box is the case of one more value in one group), a record that matches \<open>sel'\<close>
  matches \<open>sel\<close>. In the inline script the same holds for the \<^verbatim>\<open>tech\<close> group, the
  other two selections being equal.
\<close>

theorem matches_antitone:
  "(set (selectedAreasOfSupport sel) \<subseteq> set (selectedAreasOfSupport sel') \<and>
    set (selectedFormats sel) \<subseteq> set (selectedFormats sel') \<and>
    set (selectedPrices sel) \<subseteq> set (selectedPrices sel') \<and>
    matches sel' item \<longrightarrow> matches sel item) \<and>
   (selectedCategories s = selectedCategories s' \<and>
    selectedStatuses s = selectedStatuses s' \<and>
    set (selectedTech s) \<subseteq> set (selectedTech s') \<and>
    matches_inline s' it \<longrightarrow> matches_inline s it)"
  unfolding matches_subset matches_inline_char by auto

theorem matches_antitone_witness:
  "set [''B''] \<subseteq> set [''A'', ''B''] \<and>
   matches \<lparr>selectedAreasOfSupport = [], selectedFormats = [''A'', ''B''], selectedPrices = []\<rparr> record_1 \<and>
   matches \<lparr>selectedAreasOfSupport = [], selectedFormats = [''B''], selectedPrices = []\<rparr> record_1 \<and>
   set [''React''] \<subseteq> set [''Node.js'', ''React''] \<and>
   matches_inline \<lparr>selectedCategories = [], selectedStatuses = [], selectedTech = [''Node.js'', ''React'']\<rparr>
     (database_inline ! 0) \<and>
   matches_inline \<lparr>selectedCategories = [], selectedStatuses = [], selectedTech = [''React'']\<rparr>
     (database_inline ! 0)"
  using matches_antitone
          [of "\<lparr>selectedAreasOfSupport = [], selectedFormats = [''B''], selectedPrices = []\<rparr>"
              "\<lparr>selectedAreasOfSupport = [], selectedFormats = [''A'', ''B''], selectedPrices = []\<rparr>"
              record_1
              "\<lparr>selectedCategories = [], selectedStatuses = [], selectedTech = [''React'']\<rparr>"
              "\<lparr>selectedCategories = [], selectedStatuses = [], selectedTech = [''Node.js'', ''React'']\<rparr>"
              "database_inline ! 0"]
  by (simp add: matches_def matches_inline_def array_includes_def array_every_def or_empty_def
        record_1_def database_inline_def)

text \<open>
  Claim C2 as stated fails on the inline script, first script of \<^verbatim>\<open>Logic.js\<close>, line 115:
  with \<^verbatim>\<open>Mobile App\<close> checked the first record of the inline data, a
  \<^verbatim>\<open>Web Development\<close> project, does not match; checking \<^verbatim>\<open>Web Development\<close> as well
  makes it match.
\<close>

theorem matches_inline_not_antitone_counterexample:
  "\<not> matches_inline
       \<lparr>selectedCategories = [''Mobile App''], selectedStatuses = [], selectedTech = []\<rparr>
       (database_inline ! 0) \<and>
   matches_inline
       \<lparr>selectedCategories = [''Mobile App'', ''Web Development''], selectedStatuses = [], selectedTech = []\<rparr>
       (database_inline ! 0)"
  by (simp add: matches_inline_def array_includes_def array_every_def database_inline_def)

text \<open>
  Claim C3. In the fetching scripts, which are the ones whose records can lack a field,
  the predicate has no failing branch (\<^verbatim>\<open>x || []\<close> always hands an array to
  \<^verbatim>\<open>includes\<close>); on a record without one of the three array fields it gives what it
  gives on the same record with that field set to the empty array, and such a record
  matches only when the selection of that group is empty.
\<close>

theorem absent_field_as_empty:
  "matches sel (item\<lparr>Areas_of_support := None\<rparr>) = matches sel (item\<lparr>Areas_of_support := Some []\<rparr>) \<and>
   matches sel (item\<lparr>Format := None\<rparr>) = matches sel (item\<lparr>Format := Some []\<rparr>) \<and>
   matches sel (item\<lparr>Price := None\<rparr>) = matches sel (item\<lparr>Price := Some []\<rparr>) \<and>
   (matches sel (item\<lparr>Areas_of_support := None\<rparr>) \<longrightarrow> selectedAreasOfSupport sel = []) \<and>
   (matches sel (item\<lparr>Format := None\<rparr>) \<longrightarrow> selectedFormats sel = []) \<and>
   (matches sel (item\<lparr>Price := None\<rparr>) \<longrightarrow> selectedPrices sel = [])"
  by (simp add: matches_subset or_empty_def)

text \<open>
  The record without any array field matches the empty selection, and no longer matches
  once a value is selected in a group.
\<close>

theorem absent_field_as_empty_witness:
  "matches \<lparr>selectedAreasOfSupport = [], selectedFormats = [], selectedPrices = []\<rparr>
     (record_2_again\<lparr>Areas_of_support := None\<rparr>) \<and>
   matches \<lparr>selectedAreasOfSupport = [], selectedFormats = [], selectedPrices = []\<rparr>
     (record_2_again\<lparr>Format := None\<rparr>) \<and>
   matches \<lparr>selectedAreasOfSupport = [], selectedFormats = [], selectedPrices = []\<rparr>
     (record_2_again\<lparr>Price := None\<rparr>) \<and>
   selectedFormats \<lparr>selectedAreasOfSupport = [], selectedFormats = [], selectedPrices = []\<rparr> = [] \<and>
   \<not> matches \<lparr>selectedAreasOfSupport = [], selectedFormats = [''B''], selectedPrices = []\<rparr>
     (record_2\<lparr>Format := Some []\<rparr>)"
  using absent_field_as_empty
          [of "\<lparr>selectedAreasOfSupport = [], selectedFormats = [], selectedPrices = []\<rparr>" record_2_again]
        absent_field_as_empty
          [of "\<lparr>selectedAreasOfSupport = [], selectedFormats = [''B''], selectedPrices = []\<rparr>" record_2]
  by (simp add: matches_def array_includes_def array_every_def or_empty_def record_2_again_def record_2_def)



section \<open>Properties of the filter vocabularies\<close>

lemma set_Set_add_all: "set (Set_add_all seen xs) = set seen \<union> set xs"
  by (induction xs arbitrary: seen) auto

lemma distinct_Set_add_all: "distinct seen \<Longrightarrow> distinct (Set_add_all seen xs)"
  by (induction xs arbitrary: seen) auto

lemma set_spread_Set: "set (spread_Set xs) = set xs"
  by (simp add: spread_Set_def set_Set_add_all)

lemma distinct_spread_Set: "distinct (spread_Set xs)"
  by (simp add: spread_Set_def distinct_Set_add_all)

lemma sort_spread_Set: "array_sort (spread_Set xs) = sorted_list_of_set (set xs)"
proof -
  have "sorted_list_of_set (set (sort (spread_Set xs))) = sort (spread_Set xs)"
    by (rule sorted_list_of_set.idem_if_sorted_distinct) (simp_all add: distinct_spread_Set)
  then show ?thesis
    by (simp add: array_sort_def set_spread_Set)
qed

lemma set_flatMap: "set (flatMap xs f) = (\<Union>x\<in>set xs. set (f x))"
  by (simp add: flatMap_def)

lemma append_checkboxes_eq:
  "append_checkboxes c n vals st =
     st\<lparr>filterContainer := (filterContainer st)(c := filterContainer st c @ map (createCheckbox n) vals)\<rparr>"
  unfolding append_checkboxes_def
  by (induction vals arbitrary: st) simp_all

lemma box_value_createCheckbox: "box_value \<circ> createCheckbox n = id"
  by (simp add: fun_eq_iff createCheckbox_def)

lemma offered_populateFilters:
  "offered ''areas-of-support-filters'' (populateFilters st) =
     sorted_list_of_set (\<Union>i\<in>set (database st). set (or_empty (Areas_of_support i)))"
  "offered ''format-filters'' (populateFilters st) =
     sorted_list_of_set (\<Union>i\<in>set (database st). set (or_empty (Format i)))"
  "offered ''price-filters'' (populateFilters st) =
     sorted_list_of_set (\<Union>i\<in>set (database st). set (or_empty (Price i)))"
  by (simp_all add: offered_def populateFilters_def Let_def append_checkboxes_eq
        box_value_createCheckbox sort_spread_Set set_flatMap)

lemma offered_populateFilters_inline:
  "offered ''tech-filters'' (populateFilters_inline st) =
     offered ''tech-filters'' st @ sorted_list_of_set (\<Union>i\<in>set (database st). set (tech i))"
  by (simp add: offered_def populateFilters_inline_def Let_def append_checkboxes_eq
        box_value_createCheckbox sort_spread_Set set_flatMap)

text \<open>
  Claim C4. For every data set, the values \<^verbatim>\<open>populateFilters\<close> offers for an array
  field are exactly the distinct values occurring in that field across the records
  (an absent field contributes nothing), in ascending order; the order on strings is the
  lexicographic one over the order of characters by code. So each group is sorted, free
  of duplicates, and the same for any permutation of the records. The inline script
  appends the \<^verbatim>\<open>tech\<close> vocabulary to what its container held before.
\<close>

theorem populateFilters_vocabulary:
  "offered ''areas-of-support-filters'' (populateFilters st) =
     sorted_list_of_set (\<Union>i\<in>set (database st). set (or_empty (Areas_of_support i))) \<and>
   offered ''format-filters'' (populateFilters st) =
     sorted_list_of_set (\<Union>i\<in>set (database st). set (or_empty (Format i))) \<and>
   offered ''price-filters'' (populateFilters st) =
     sorted_list_of_set (\<Union>i\<in>set (database st). set (or_empty (Price i))) \<and>
   offered ''tech-filters'' (populateFilters_inline sti) =
     offered ''tech-filters'' sti @ sorted_list_of_set (\<Union>i\<in>set (database sti). set (tech i)) \<and>
   sorted (offered ''areas-of-support-filters'' (populateFilters st)) \<and>
   sorted (offered ''format-filters'' (populateFilters st)) \<and>
   sorted (offered ''price-filters'' (populateFilters st)) \<and>
   distinct (offered ''areas-of-support-filters'' (populateFilters st)) \<and>
   distinct (offered ''format-filters'' (populateFilters st)) \<and>
   distinct (offered ''price-filters'' (populateFilters st)) \<and>
   (mset (database st') = mset (database st) \<longrightarrow>
      offered ''areas-of-support-filters'' (populateFilters st') =
        offered ''areas-of-support-filters'' (populateFilters st) \<and>
      offered ''format-filters'' (populateFilters st') = offered ''format-filters'' (populateFilters st) \<and>
      offered ''price-filters'' (populateFilters st') = offered ''price-filters'' (populateFilters st)) \<and>
   (mset (database sti') = mset (database sti) \<and> offered ''tech-filters'' sti' = offered ''tech-filters'' sti \<longrightarrow>
      offered ''tech-filters'' (populateFilters_inline sti') =
        offered ''tech-filters'' (populateFilters_inline sti))"
proof -
  have "mset (database st') = mset (database st) \<Longrightarrow> set (database st') = set (database st)"
    by (rule mset_eq_setD)
  moreover have "mset (database sti') = mset (database sti) \<Longrightarrow> set (database sti') = set (database sti)"
    by (rule mset_eq_setD)
  ultimately show ?thesis
    by (simp add: offered_populateFilters offered_populateFilters_inline)
qed


text \<open>
  The scenario records in both orders give the \<^verbatim>\<open>Format\<close> vocabulary \<^verbatim>\<open>A, B\<close>, and
  the inline data reversed give the \<^verbatim>\<open>tech\<close> vocabulary of the inline data.
\<close>

theorem populateFilters_vocabulary_witness:
  "mset (database (blank_page [record_2, record_1])) = mset (database (blank_page [record_1, record_2])) \<and>
   offered ''format-filters'' (populateFilters (blank_page [record_1, record_2])) = [''A'', ''B''] \<and>
   offered ''format-filters'' (populateFilters (blank_page [record_2, record_1])) = [''A'', ''B''] \<and>
   mset (database (blank_page (rev database_inline))) = mset (database (blank_page database_inline)) \<and>
   offered ''tech-filters'' (blank_page (rev database_inline)) = offered ''tech-filters'' (blank_page database_inline) \<and>
   offered ''tech-filters'' (populateFilters_inline (blank_page (rev database_inline))) =
     offered ''tech-filters'' (populateFilters_inline (blank_page database_inline))"
proof -
  have m: "mset (database (blank_page [record_2, record_1])) = mset (database (blank_page [record_1, record_2]))"
    by (simp add: blank_page_def)
  have mi: "mset (database (blank_page (rev database_inline))) = mset (database (blank_page database_inline))"
    by (simp add: blank_page_def)
  have oi: "offered ''tech-filters'' (blank_page (rev database_inline)) =
            offered ''tech-filters'' (blank_page database_inline)"
    by (simp add: blank_page_def offered_def)
  have e: "offered ''format-filters'' (populateFilters (blank_page [record_1, record_2])) = [''A'', ''B'']"
    by (simp add: offered_def populateFilters_def append_checkboxes_def createCheckbox_def
          spread_Set_def flatMap_def array_sort_def or_empty_def
          blank_page_def record_1_def record_2_def)
  note v = populateFilters_vocabulary
             [of "blank_page [record_1, record_2]" "blank_page database_inline"
                 "blank_page [record_2, record_1]" "blank_page (rev database_inline)"]
  from v m have "offered ''format-filters'' (populateFilters (blank_page [record_2, record_1])) =
                 offered ''format-filters'' (populateFilters (blank_page [record_1, record_2]))"
    by blast
  moreover from v mi oi
  have "offered ''tech-filters'' (populateFilters_inline (blank_page (rev database_inline))) =
        offered ''tech-filters'' (populateFilters_inline (blank_page database_inline))"
    by blast
  ultimately show ?thesis
    using m mi oi e by simp
qed

section \<open>Properties of filtering and rendering\<close>

lemma forEach_cards:
  "foldl (\<lambda>s item. s\<lparr>resultsGrid := resultsGrid s @ [render item]\<rparr>) st items =
     st\<lparr>resultsGrid := resultsGrid st @ map render items\<rparr>"
  by (induction items arbitrary: st) simp_all

lemma populateResults_with_eq:
  "populateResults_with render items st =
     st\<lparr>resultsGrid := map render items,
        resultsGrid_hidden := (items = []),
        noResultsMessage_hidden := (items \<noteq> []),
        resultsCount := ''Showing '' @ show_nat (length items) @ '' of '' @
                        show_nat (length (database st)) @ '' results''\<rparr>"
  by (cases "items = []") (simp_all add: populateResults_with_def forEach_cards Let_def)

text \<open>
  Claim C5. For every data set and selection the filtered records are a subsequence of
  the data set: each of them occurs in the data set and they keep its relative order.
  The cards shown are those of the filtered records, in that order.
\<close>

theorem filteredItems_subseq:
  "subseq (filteredItems sel db) db \<and>
   set (filteredItems sel db) \<subseteq> set db \<and>
   resultsGrid (filterData sel st) = map renderCard (filteredItems sel (database st)) \<and>
   subseq (filteredItems_inline sel' db') db' \<and>
   set (filteredItems_inline sel' db') \<subseteq> set db' \<and>
   resultsGrid (filterData_inline sel' st') = map renderCard_inline (filteredItems_inline sel' (database st'))"
  by (simp add: filteredItems_def filteredItems_inline_def filterData_def filterData_inline_def
        populateResults_def populateResults_inline_def populateResults_with_eq)

text \<open>
  Selecting \<^verbatim>\<open>Reading\<close> drops the record without array fields and keeps the other two
  in place; selecting \<^verbatim>\<open>React\<close> in the inline data keeps records 1, 3 and 5.
\<close>

theorem filteredItems_subseq_witness:
  "filteredItems \<lparr>selectedAreasOfSupport = [''Reading''], selectedFormats = [], selectedPrices = []\<rparr>
     [record_2_again, record_1, record_2] = [record_1, record_2] \<and>
   subseq [record_1, record_2] [record_2_again, record_1, record_2] \<and>
   map item_id
     (filteredItems_inline \<lparr>selectedCategories = [], selectedStatuses = [], selectedTech = [''React'']\<rparr>
        database_inline) = [1, 3, 5]"
  using filteredItems_subseq
          [of "\<lparr>selectedAreasOfSupport = [''Reading''], selectedFormats = [], selectedPrices = []\<rparr>"
              "[record_2_again, record_1, record_2]"]
  by (simp add: filteredItems_def filteredItems_inline_def matches_def matches_inline_def
        array_includes_def array_every_def or_empty_def
        record_1_def record_2_def record_2_again_def database_inline_def)

text \<open>
  Claim C6. With nothing selected in any group, filtering returns the data set itself,
  the same records in the same order, and one card per record is shown.
\<close>

theorem empty_selection_keeps_all:
  "filteredItems \<lparr>selectedAreasOfSupport = [], selectedFormats = [], selectedPrices = []\<rparr> db = db \<and>
   resultsGrid (filterData \<lparr>selectedAreasOfSupport = [], selectedFormats = [], selectedPrices = []\<rparr> st) =
     map renderCard (database st) \<and>
   filteredItems_inline \<lparr>selectedCategories = [], selectedStatuses = [], selectedTech = []\<rparr> db' = db' \<and>
   resultsGrid (filterData_inline \<lparr>selectedCategories = [], selectedStatuses = [], selectedTech = []\<rparr> st') =
     map renderCard_inline (database st')"
  by (simp add: filteredItems_def filteredItems_inline_def filterData_def filterData_inline_def
        populateResults_def populateResults_inline_def populateResults_with_eq
        matches_def matches_inline_def)

text \<open>The empty selection on the scenario records and on the inline data.\<close>

theorem empty_selection_keeps_all_witness:
  "filteredItems \<lparr>selectedAreasOfSupport = [], selectedFormats = [], selectedPrices = []\<rparr>
     [record_1, record_2, record_2_again] = [record_1, record_2, record_2_again] \<and>
   length (filteredItems_inline \<lparr>selectedCategories = [], selectedStatuses = [], selectedTech = []\<rparr>
     database_inline) = 8"
  using empty_selection_keeps_all [of "[record_1, record_2, record_2_again]" "blank_page []" database_inline "blank_page []"]
  by (simp add: database_inline_def)

text \<open>
  Claim C7. After every filtering the count text reads \<^verbatim>\<open>Showing X of Y results\<close>,
  where \<open>X\<close> is the number of cards shown, which is the number of filtered records, and
  \<open>Y\<close> is the length of the data set, which filtering leaves as it is.
\<close>

theorem results_count_text:
  "resultsCount (filterData sel st) =
     ''Showing '' @ show_nat (length (resultsGrid (filterData sel st))) @ '' of '' @
     show_nat (length (database st)) @ '' results'' \<and>
   length (resultsGrid (filterData sel st)) = length (filteredItems sel (database st)) \<and>
   database (filterData sel st) = database st \<and>
   resultsCount (filterData_inline sel' st') =
     ''Showing '' @ show_nat (length (resultsGrid (filterData_inline sel' st'))) @ '' of '' @
     show_nat (length (database st')) @ '' results'' \<and>
   length (resultsGrid (filterData_inline sel' st')) = length (filteredItems_inline sel' (database st')) \<and>
   database (filterData_inline sel' st') = database st'"
  by (simp add: filterData_def filterData_inline_def
        populateResults_def populateResults_inline_def populateResults_with_eq)

text \<open>
  The scenario of the specification: two records, one of which carries the selected tag,
  give \<^verbatim>\<open>Showing 1 of 2 results\<close>; the inline data filtered by \<^verbatim>\<open>React\<close> give 3 of 8.
\<close>

theorem results_count_text_witness:
  "resultsCount
     (filterData \<lparr>selectedAreasOfSupport = [], selectedFormats = [''A''], selectedPrices = []\<rparr>
        (blank_page [record_1, record_2])) = ''Showing 1 of 2 results'' \<and>
   resultsCount
     (filterData_inline \<lparr>selectedCategories = [], selectedStatuses = [], selectedTech = [''React'']\<rparr>
        (blank_page database_inline)) = ''Showing 3 of 8 results''"
  using results_count_text
          [of "\<lparr>selectedAreasOfSupport = [], selectedFormats = [''A''], selectedPrices = []\<rparr>"
              "blank_page [record_1, record_2]"
              "\<lparr>selectedCategories = [], selectedStatuses = [], selectedTech = [''React'']\<rparr>"
              "blank_page database_inline"]
  by (simp add: filterData_def filterData_inline_def populateResults_def populateResults_inline_def
        populateResults_with_def filteredItems_def filteredItems_inline_def
        matches_def matches_inline_def array_includes_def array_every_def or_empty_def
        blank_page_def record_1_def record_2_def database_inline_def show_nat.simps digit_char_def)


section \<open>Properties of loading\<close>

lemma append_checkboxes_json_strings:
  "list_all is_string vals \<Longrightarrow>
     append_checkboxes_json c n vals st =
       Normal (st\<lparr>filterContainer :=
                 (filterContainer st)(c := filterContainer st c @ map (\<lambda>v. createCheckbox n (to_string v)) vals)\<rparr>)"
proof (induction vals arbitrary: st)
  case Nil
  then show ?case by simp
next
  case (Cons v vals)
  show ?case
  proof (cases v)
    case (JNum k)
    with Cons.prems show ?thesis by simp
  next
    case (JStr x)
    let ?st = "st\<lparr>filterContainer := (filterContainer st)(c := filterContainer st c @ [createCheckbox n x])\<rparr>"
    from Cons.prems have "list_all is_string vals" by simp
    from Cons.IH [OF this, of ?st] JStr show ?thesis by (simp cong: if_cong)
  qed
qed

lemma strings_array_sort_json:
  "list_all is_string xs \<Longrightarrow> list_all is_string (array_sort_json xs)"
  by (simp add: array_sort_json_def list_all_iff)

lemma strings_spread_Set:
  "list_all is_string xs \<Longrightarrow> list_all is_string (spread_Set xs)"
  by (simp add: list_all_iff set_spread_Set)

lemma strings_flatMap:
  "(\<forall>r\<in>set db. list_all is_string (f r)) \<Longrightarrow> list_all is_string (flatMap db f)"
  by (auto simp: list_all_iff flatMap_def)

lemma populateFilters_json_well_shaped:
  assumes "\<forall>r\<in>set (database st). well_shaped r"
  shows "\<exists>boxes. populateFilters_json st = Normal (st\<lparr>filterContainer := boxes\<rparr>)"
proof -
  let ?a = "array_sort_json (spread_Set (flatMap (database st) (\<lambda>item. or_empty (Areas_of_support_json item))))"
  let ?f = "array_sort_json (spread_Set (flatMap (database st) (\<lambda>item. or_empty (Format_json item))))"
  let ?p = "array_sort_json (spread_Set (flatMap (database st) (\<lambda>item. or_empty (Price_json item))))"
  have a: "list_all is_string ?a"
    using assms by (intro strings_array_sort_json strings_spread_Set strings_flatMap) (simp add: well_shaped_def)
  have f: "list_all is_string ?f"
    using assms by (intro strings_array_sort_json strings_spread_Set strings_flatMap) (simp add: well_shaped_def)
  have p: "list_all is_string ?p"
    using assms by (intro strings_array_sort_json strings_spread_Set strings_flatMap) (simp add: well_shaped_def)
  have "populateFilters_json st =
          Normal (st\<lparr>filterContainer :=
            (filterContainer st)
              (''areas-of-support-filters'' := map (\<lambda>v. createCheckbox ''areas-of-support'' (to_string v)) ?a,
               ''format-filters'' := map (\<lambda>v. createCheckbox ''format'' (to_string v)) ?f,
               ''price-filters'' := map (\<lambda>v. createCheckbox ''price'' (to_string v)) ?p)\<rparr>)"
    unfolding populateFilters_json_def Let_def
    by (simp add: append_checkboxes_json_strings [OF a] append_checkboxes_json_strings [OF f]
          append_checkboxes_json_strings [OF p])
  then show ?thesis by blast
qed

lemma renderCard_json_well_shaped: "renderCard_json r = renderCard (item_of r)"
  by (simp add: renderCard_json_def renderCard_def item_of_def split: option.splits)

text \<open>
  Claim C8, as amended. Started on the empty \<^verbatim>\<open>database\<close> the scripts declare, a load
  that fails (\<^verbatim>\<open>fetch\<close> rejects, the response is not \<^verbatim>\<open>ok\<close>, or the body does not
  parse) leaves the data set empty, renders nothing, and shows the count text
  \<^verbatim>\<open>Failed to load data.\<close> with the heading \<^verbatim>\<open>Error loading data\<close>; that count text differs
  from every text \<^verbatim>\<open>populateResults\<close> writes, the one for zero matching records included.
  A load whose response is \<^verbatim>\<open>ok\<close> and whose body parses to records in which every tag
  is a string publishes the fetched records, shows their cards and the count of all of
  them, and leaves the texts of the empty-state message as the document has them.
\<close>

theorem fetchDatabase_outcomes:
  "(database st = [] \<and>
    (fetched = None \<or> (\<exists>resp. fetched = Some resp \<and> (\<not> ok resp \<or> json resp = None))) \<longrightarrow>
      database (fetchDatabase fetched st) = [] \<and>
      resultsGrid (fetchDatabase fetched st) = resultsGrid st \<and>
      resultsCount (fetchDatabase fetched st) = ''Failed to load data.'' \<and>
      \<not> noResultsMessage_hidden (fetchDatabase fetched st) \<and>
      noResultsMessage_h3 (fetchDatabase fetched st) = ''Error loading data'' \<and>
      noResultsMessage_p (fetchDatabase fetched st) = ''Please try again later.'' \<and>
      (\<forall>items st'. resultsCount (fetchDatabase fetched st) \<noteq> resultsCount (populateResults items st'))) \<and>
   (fetched = Some resp \<and> ok resp \<and> json resp = Some data \<and> (\<forall>r\<in>set data. well_shaped r) \<longrightarrow>
      database (fetchDatabase fetched st) = data \<and>
      resultsGrid (fetchDatabase fetched st) = map renderCard (map item_of data) \<and>
      resultsCount (fetchDatabase fetched st) =
        ''Showing '' @ show_nat (length data) @ '' of '' @ show_nat (length data) @ '' results'' \<and>
      resultsCount (fetchDatabase fetched st) \<noteq> ''Failed to load data.'' \<and>
      noResultsMessage_hidden (fetchDatabase fetched st) = (data \<noteq> []) \<and>
      noResultsMessage_h3 (fetchDatabase fetched st) = noResultsMessage_h3 st \<and>
      noResultsMessage_p (fetchDatabase fetched st) = noResultsMessage_p st)"
proof -
  let ?st1 = "st\<lparr>loadingIndicator_hidden := False, resultsCount := ''Loading data...''\<rparr>"
  have failure: "fetchDatabase fetched st = load_finally (load_failed ?st1)"
    if "fetched = None \<or> (\<exists>resp. fetched = Some resp \<and> (\<not> ok resp \<or> json resp = None))"
    using that by (auto simp: fetchDatabase_def Let_def)
  have success: "\<exists>boxes. fetchDatabase fetched st =
      load_finally (populateResults_json data (?st1\<lparr>database := data, filterContainer := boxes\<rparr>))"
    if a: "fetched = Some resp \<and> ok resp \<and> json resp = Some data \<and> (\<forall>r\<in>set data. well_shaped r)"
  proof -
    from a have "\<forall>r\<in>set (database (?st1\<lparr>database := data\<rparr>)). well_shaped r" by simp
    then obtain boxes where
      "populateFilters_json (?st1\<lparr>database := data\<rparr>) = Normal (?st1\<lparr>database := data, filterContainer := boxes\<rparr>)"
      using populateFilters_json_well_shaped [of "?st1\<lparr>database := data\<rparr>"] by auto
    with a show ?thesis
      by (auto simp: fetchDatabase_def Let_def)
  qed
  show ?thesis
  proof (intro conjI impI)
    assume a: "fetched = Some resp \<and> ok resp \<and> json resp = Some data \<and> (\<forall>r\<in>set data. well_shaped r)"
    from success [OF a] obtain boxes where s: "fetchDatabase fetched st =
      load_finally (populateResults_json data (?st1\<lparr>database := data, filterContainer := boxes\<rparr>))"
      by blast
    show "database (fetchDatabase fetched st) = data"
      by (simp add: s load_finally_def populateResults_json_def populateResults_with_eq)
    show "resultsGrid (fetchDatabase fetched st) = map renderCard (map item_of data)"
      by (simp add: s load_finally_def populateResults_json_def populateResults_with_eq
            renderCard_json_well_shaped comp_def)
    show c: "resultsCount (fetchDatabase fetched st) =
        ''Showing '' @ show_nat (length data) @ '' of '' @ show_nat (length data) @ '' results''"
      by (simp add: s load_finally_def populateResults_json_def populateResults_with_eq)
    show "resultsCount (fetchDatabase fetched st) \<noteq> ''Failed to load data.''"
      unfolding c by simp
    show "noResultsMessage_hidden (fetchDatabase fetched st) = (data \<noteq> [])"
      by (simp add: s load_finally_def populateResults_json_def populateResults_with_eq)
    show "noResultsMessage_h3 (fetchDatabase fetched st) = noResultsMessage_h3 st"
      by (simp add: s load_finally_def populateResults_json_def populateResults_with_eq)
    show "noResultsMessage_p (fetchDatabase fetched st) = noResultsMessage_p st"
      by (simp add: s load_finally_def populateResults_json_def populateResults_with_eq)
  next
    assume b: "database st = [] \<and>
      (fetched = None \<or> (\<exists>resp. fetched = Some resp \<and> (\<not> ok resp \<or> json resp = None)))"
    then have f: "fetchDatabase fetched st = load_finally (load_failed ?st1)"
      using failure by blast
    show "database (fetchDatabase fetched st) = []"
      using b by (simp add: f load_finally_def load_failed_def)
    show "resultsGrid (fetchDatabase fetched st) = resultsGrid st"
      by (simp add: f load_finally_def load_failed_def)
    show c: "resultsCount (fetchDatabase fetched st) = ''Failed to load data.''"
      by (simp add: f load_finally_def load_failed_def)
    show "\<not> noResultsMessage_hidden (fetchDatabase fetched st)"
      by (simp add: f load_finally_def load_failed_def)
    show "noResultsMessage_h3 (fetchDatabase fetched st) = ''Error loading data''"
      by (simp add: f load_finally_def load_failed_def)
    show "noResultsMessage_p (fetchDatabase fetched st) = ''Please try again later.''"
      by (simp add: f load_finally_def load_failed_def)
    show "\<forall>items st'. resultsCount (fetchDatabase fetched st) \<noteq> resultsCount (populateResults items st')"
      unfolding c by (simp add: populateResults_def populateResults_with_eq)
  qed
qed

text \<open>A rejected fetch, a 404 response and a response carrying the scenario records.\<close>

theorem fetchDatabase_outcomes_witness:
  "database (blank_page ([] :: json_item list)) = [] \<and>
   resultsCount (fetchDatabase None (blank_page [])) = ''Failed to load data.'' \<and>
   noResultsMessage_h3 (fetchDatabase None (blank_page [])) = ''Error loading data'' \<and>
   \<not> ok \<lparr>ok = False, http_status = 404, json = None\<rparr> \<and>
   resultsCount (fetchDatabase (Some \<lparr>ok = False, http_status = 404, json = None\<rparr>) (blank_page [])) =
     ''Failed to load data.'' \<and>
   database (fetchDatabase (Some \<lparr>ok = False, http_status = 404, json = None\<rparr>) (blank_page [])) = [] \<and>
   ok \<lparr>ok = True, http_status = 200, json = Some [record_1_json, record_2_json]\<rparr> \<and>
   well_shaped record_1_json \<and> well_shaped record_2_json \<and>
   database (fetchDatabase (Some \<lparr>ok = True, http_status = 200, json = Some [record_1_json, record_2_json]\<rparr>)
     (blank_page [])) = [record_1_json, record_2_json] \<and>
   resultsCount (fetchDatabase (Some \<lparr>ok = True, http_status = 200, json = Some [record_1_json, record_2_json]\<rparr>)
     (blank_page [])) = ''Showing 2 of 2 results'' \<and>
   noResultsMessage_h3 (fetchDatabase (Some \<lparr>ok = True, http_status = 200, json = Some [record_1_json, record_2_json]\<rparr>)
     (blank_page [])) = ''empty-state heading''"
proof -
  have w: "well_shaped record_1_json \<and> well_shaped record_2_json"
    by (simp add: well_shaped_def record_1_json_def record_2_json_def or_empty_def)
  show ?thesis
    using fetchDatabase_outcomes [of "blank_page []" None]
          fetchDatabase_outcomes [of "blank_page []" "Some \<lparr>ok = False, http_status = 404, json = None\<rparr>"]
          fetchDatabase_outcomes [of "blank_page []"
             "Some \<lparr>ok = True, http_status = 200, json = Some [record_1_json, record_2_json]\<rparr>"
             "\<lparr>ok = True, http_status = 200, json = Some [record_1_json, record_2_json]\<rparr>"
             "[record_1_json, record_2_json]"]
          w
    by (simp add: blank_page_def show_nat.simps digit_char_def)
qed

text \<open>
  Claim C8 as stated fails on a body that parses but carries a number where a tag is
  expected (second script of \<^verbatim>\<open>Logic.js\<close>, lines 219-228; unnamed file, lines 37-46).
  The response is \<^verbatim>\<open>ok\<close> and \<^verbatim>\<open>response.json()\<close> resolves, so none of the three
  failures occurred; \<^verbatim>\<open>database\<close> is assigned, \<^verbatim>\<open>createCheckbox('price', 5)\<close> throws
  inside the \<^verbatim>\<open>try\<close>, and the \<^verbatim>\<open>catch\<close> block shows the error texts over a data set
  of one record.
\<close>

theorem fetchDatabase_numeric_tag_counterexample:
  "ok \<lparr>ok = True, http_status = 200, json = Some [record_numeric_price]\<rparr> \<and>
   json \<lparr>ok = True, http_status = 200, json = Some [record_numeric_price]\<rparr> = Some [record_numeric_price] \<and>
   database (fetchDatabase (Some \<lparr>ok = True, http_status = 200, json = Some [record_numeric_price]\<rparr>)
     (blank_page [])) = [record_numeric_price] \<and>
   resultsCount (fetchDatabase (Some \<lparr>ok = True, http_status = 200, json = Some [record_numeric_price]\<rparr>)
     (blank_page [])) = ''Failed to load data.'' \<and>
   noResultsMessage_h3 (fetchDatabase (Some \<lparr>ok = True, http_status = 200, json = Some [record_numeric_price]\<rparr>)
     (blank_page [])) = ''Error loading data'' \<and>
   \<not> noResultsMessage_hidden (fetchDatabase (Some \<lparr>ok = True, http_status = 200, json = Some [record_numeric_price]\<rparr>)
     (blank_page []))"
  by (simp add: fetchDatabase_def populateFilters_json_def array_sort_json_def spread_Set_def flatMap_def
        or_empty_def createCheckbox_def load_failed_def load_finally_def blank_page_def
        record_numeric_price_def)

section \<open>Properties of the detail view\<close>























end
